theory Spec2Isabelle
  imports Main
begin

section \<open>The documentation build configuration \<^verbatim>\<open>docs/conf.py\<close>\<close>

text \<open>
  \<^verbatim>\<open>docs/conf.py\<close> is executed once by the documentation generator. Its module-level
  statements import two lexer classes, define the hook \<^verbatim>\<open>setup\<close>, bind string constants
  and read two lines from the version-control tool through \<^verbatim>\<open>os.popen\<close>. The model
  below runs these statements in their order on an explicit host state and returns
  either the exception that ends the load or the module's bindings.
\<close>

subsection \<open>Python text\<close>

text \<open>
  A Python \<^verbatim>\<open>str\<close> is a sequence of Unicode code points, so the model uses lists of
  code points. \<open>str_lit\<close> embeds the ASCII literals of the source.
\<close>

type_synonym pystr = "nat list"

definition str_lit :: "string \<Rightarrow> pystr" where
  "str_lit s = map of_char s"

abbreviation LF :: nat where
  "LF \<equiv> 10"

abbreviation CR :: nat where
  "CR \<equiv> 13"

text \<open>
  \<^verbatim>\<open>str.strip()\<close> without argument removes the characters for which
  \<^verbatim>\<open>str.isspace()\<close> holds: the code points of category Zs or of bidirectional
  class WS, B or S.
\<close>

definition isspace :: "nat \<Rightarrow> bool" where
  "isspace c =
     ((0x09 \<le> c \<and> c \<le> 0x0D) \<or> (0x1C \<le> c \<and> c \<le> 0x20) \<or> c = 0x85 \<or> c = 0xA0
      \<or> c = 0x1680 \<or> (0x2000 \<le> c \<and> c \<le> 0x200A) \<or> c = 0x2028 \<or> c = 0x2029
      \<or> c = 0x202F \<or> c = 0x205F \<or> c = 0x3000)"

definition lstrip :: "pystr \<Rightarrow> pystr" where
  "lstrip s = dropWhile isspace s"

definition rstrip :: "pystr \<Rightarrow> pystr" where
  "rstrip s = rev (dropWhile isspace (rev s))"

definition strip :: "pystr \<Rightarrow> pystr" where
  "strip s = rstrip (lstrip s)"


subsection \<open>The host: installed modules and the shell\<close>

text \<open>
  \<^verbatim>\<open>os.popen\<close> hands out a strict text-mode reader: it decodes the bytes of the child's
  standard output in the host's encoding, and \<^verbatim>\<open>readline()\<close> raises
  \<^verbatim>\<open>UnicodeDecodeError\<close> when they do not decode. Which bytes decode depends on the host,
  so the host says for each output whether it decodes and to what text.
\<close>

datatype captured = Decoded pystr | Undecodable

text \<open>
  The host state holds what the load reads and what it changes:
  \<^item> \<open>pygments_lexer_solidity\<close>: the attributes of the third-party module of that name,
    or \<open>None\<close> when it is not installed (\<^verbatim>\<open>os\<close> belongs to the standard library and is
    always there);
  \<^item> \<open>shell_stdout\<close>: for a command line, what its process writes to standard output
    when the shell runs it, as the reader decodes it. A tool that is absent or that fails
    writes its complaint to standard error, which \<^verbatim>\<open>os.popen\<close> does not capture;
  \<^item> \<open>spawned\<close>: the command lines run so far, in order.

  Every process is taken to end: the load sets no timeout, and a tool that never ends
  would block it.
\<close>

record 'cls world =
  pygments_lexer_solidity :: "(pystr \<rightharpoonup> 'cls) option"
  shell_stdout :: "pystr \<Rightarrow> captured"
  spawned :: "pystr list"

datatype pyerror = ModuleNotFoundError | ImportError | UnicodeDecodeError

text \<open>
  Line 20, \<^verbatim>\<open>from pygments_lexer_solidity import SolidityLexer, YulLexer\<close>: the module is
  looked up first, then the two names in it, left to right.
\<close>

definition import_lexers :: "'cls world \<Rightarrow> pyerror + ('cls \<times> 'cls)" where
  "import_lexers w =
     (case pygments_lexer_solidity w of
        None \<Rightarrow> Inl ModuleNotFoundError
      | Some ns \<Rightarrow>
          (case ns (str_lit ''SolidityLexer'') of
             None \<Rightarrow> Inl ImportError
           | Some sl \<Rightarrow>
               (case ns (str_lit ''YulLexer'') of
                  None \<Rightarrow> Inl ImportError
                | Some yl \<Rightarrow> Inr (sl, yl))))"

text \<open>
  \<^verbatim>\<open>os.popen(cmd)\<close> runs \<open>cmd\<close> through the shell and returns the reader of the child's
  standard output.
\<close>

definition popen :: "pystr \<Rightarrow> 'cls world \<Rightarrow> captured \<times> 'cls world" where
  "popen cmd w = (shell_stdout w cmd, w\<lparr>spawned := spawned w @ [cmd]\<rparr>)"

text \<open>
  Text mode reads with universal newlines: \<^verbatim>\<open>\r\n\<close> and a lone \<^verbatim>\<open>\r\<close> arrive as
  \<^verbatim>\<open>\n\<close>.
\<close>

fun universal_newlines :: "pystr \<Rightarrow> pystr" where
  "universal_newlines [] = []"
| "universal_newlines [c] = (if c = CR then [LF] else [c])"
| "universal_newlines (c # d # cs) =
     (if c = CR \<and> d = LF then LF # universal_newlines cs
      else if c = CR then LF # universal_newlines (d # cs)
      else c # universal_newlines (d # cs))"

text \<open>
  A line of a text runs up to and including the first \<^verbatim>\<open>\n\<close>, or to the end when there
  is none; the second component is what follows the line.
\<close>

definition split_line :: "pystr \<Rightarrow> pystr \<times> pystr" where
  "split_line s =
     (case dropWhile (\<lambda>c. c \<noteq> LF) s of
        [] \<Rightarrow> (s, [])
      | nl # rest \<Rightarrow> (takeWhile (\<lambda>c. c \<noteq> LF) s @ [nl], rest))"

text \<open>
  \<^verbatim>\<open>readline()\<close> on a fresh reader: it raises when the output does not decode, and
  otherwise returns the first line (the empty string at end of file) and leaves the rest
  in the reader.
\<close>

definition readline :: "captured \<Rightarrow> pyerror + pystr \<times> pystr" where
  "readline f =
     (case f of
        Undecodable \<Rightarrow> Inl UnicodeDecodeError
      | Decoded s \<Rightarrow> Inr (split_line (universal_newlines s)))"

subsection \<open>The generator's lexer table\<close>

text \<open>
  Modelled from the spec: the generator object handed to the hook and its method
  \<^verbatim>\<open>add_lexer\<close>, which belong to the documentation generator and not to this
  repository. The spec describes the effect as associating a language name with a lexer
  implementation in the generator's lexer table.
\<close>

record 'cls sphinx =
  lexer_classes :: "pystr \<rightharpoonup> 'cls"

definition add_lexer :: "pystr \<Rightarrow> 'cls \<Rightarrow> 'cls sphinx \<Rightarrow> 'cls sphinx" where
  "add_lexer alias lexer app = app\<lparr>lexer_classes := (lexer_classes app)(alias \<mapsto> lexer)\<rparr>"

subsection \<open>The module\<close>

text \<open>The names bound at module level once the load has run to its end.\<close>

record 'cls conf =
  SolidityLexer :: 'cls
  YulLexer :: 'cls
  project :: pystr
  copyright :: pystr
  author :: pystr
  version :: pystr
  release :: pystr
  extensions :: "pystr list"
  sphinx_tabs_disable_tab_closing :: bool
  templates_path :: "pystr list"
  exclude_patterns :: "pystr list"
  html_theme :: pystr
  master_doc :: pystr

text \<open>
  Lines 22 to 24, \<^verbatim>\<open>def setup(sphinx)\<close>. The hook reads the two lexer classes from the
  module's globals, hence the first argument. (\<open>setup\<close> is a reserved word of the
  theory language, so the hook is called \<open>setup_hook\<close>.)
\<close>

definition setup_hook :: "'cls conf \<Rightarrow> 'cls sphinx \<Rightarrow> 'cls sphinx" where
  "setup_hook g sphinx =
     add_lexer (str_lit ''Yul'') (YulLexer g)
       (add_lexer (str_lit ''Solidity'') (SolidityLexer g) sphinx)"

text \<open>The two command lines of lines 33 and 34.\<close>

abbreviation nearest_tag_cmd :: pystr where
  "nearest_tag_cmd \<equiv> str_lit ''git describe --tags --abbrev=0''"

abbreviation describe_cmd :: pystr where
  "describe_cmd \<equiv> str_lit ''git describe --tags''"

text \<open>
  The module body, lines 18 to 70. A failing import ends the load at line 20 with the
  host untouched. Otherwise the two \<^verbatim>\<open>os.popen(...).readline().strip()\<close> expressions
  of lines 33 and 34 run in this order; a \<^verbatim>\<open>readline()\<close> that raises ends the load at
  its line, after the command of that line has been run. When neither raises every name
  is bound.
\<close>

definition load_conf :: "'cls world \<Rightarrow> (pyerror + 'cls conf) \<times> 'cls world" where
  "load_conf w =
     (case import_lexers w of
        Inl e \<Rightarrow> (Inl e, w)
      | Inr (sl, yl) \<Rightarrow>
          (let (f1, w1) = popen nearest_tag_cmd w in
           case readline f1 of
             Inl e \<Rightarrow> (Inl e, w1)
           | Inr (line1, rest1) \<Rightarrow>
               (let v = strip line1;
                    (f2, w2) = popen describe_cmd w1 in
                case readline f2 of
                  Inl e \<Rightarrow> (Inl e, w2)
                | Inr (line2, rest2) \<Rightarrow>
                    (let r = strip line2 in
                     (Inr \<lparr> SolidityLexer = sl,
                             YulLexer = yl,
                             project = str_lit ''Solang Solidity Compiler'',
                             copyright = str_lit ''2019 - 2023 Solang Maintainers'',
                             author = str_lit ''Sean Young <sean@mess.org>, Cyrill Leutwiler <bigcyrill@hotmail.com>, Lucas Steuernagel <lucas.tnagel@gmail.com>'',
                             version = v,
                             release = r,
                             extensions = [str_lit ''sphinx_tabs.tabs''],
                             sphinx_tabs_disable_tab_closing = True,
                             templates_path = [str_lit ''_templates''],
                             exclude_patterns = [],
                             html_theme = str_lit ''sphinx_rtd_theme'',
                             master_doc = str_lit ''index'' \<rparr>,
                      w2)))))"

text \<open>
  What the generator finds under a key once the load is over: the bound value, or the
  exception that ended the load.
\<close>

definition loaded :: "('cls conf \<Rightarrow> 'a) \<Rightarrow> 'cls world \<Rightarrow> pyerror + 'a" where
  "loaded key w = (case fst (load_conf w) of Inl e \<Rightarrow> Inl e | Inr c \<Rightarrow> Inr (key c))"

subsection \<open>The generator's use of the module\<close>

text \<open>
  Modelled from the spec: the documentation generator, which is not part of this
  repository, imports the configuration at build start and calls the exposed
  registration hook during its own extension-loading phase. A load that raises ends the
  build with that exception.
\<close>

definition sphinx_build ::
  "'cls world \<Rightarrow> 'cls sphinx \<Rightarrow> (pyerror + 'cls conf \<times> 'cls sphinx) \<times> 'cls world" where
  "sphinx_build w app =
     (case load_conf w of
        (Inl e, w') \<Rightarrow> (Inl e, w')
      | (Inr g, w') \<Rightarrow> (Inr (g, setup_hook g app), w'))"

subsection \<open>What the version-control tool prints\<close>

text \<open>
  The tool is outside the program; the properties below describe its answers by what
  arrives on standard output. When a tag is reachable, each of the two queries prints one
  name followed by \<^verbatim>\<open>\n\<close>: the nearest tag's name for the first query, the full
  description for the second. The tool admits no control character in a reference name,
  so a printed name holds no line break; it may hold other whitespace that
  \<^verbatim>\<open>str.isspace()\<close> knows, such as U+00A0, in any place.
  When no tag is reachable, when the directory is not a repository or when the tool is
  absent, nothing arrives on standard output (the complaint goes to standard error).
\<close>

definition name_line :: "pystr \<Rightarrow> bool" where
  "name_line t = (LF \<notin> set t \<and> CR \<notin> set t)"

definition describes :: "'cls world \<Rightarrow> pystr \<Rightarrow> pystr \<Rightarrow> bool" where
  "describes w tag descr =
     (shell_stdout w nearest_tag_cmd = Decoded (tag @ [LF]) \<and>
      shell_stdout w describe_cmd = Decoded (descr @ [LF]) \<and>
      name_line tag \<and> name_line descr)"

definition describes_nothing :: "'cls world \<Rightarrow> bool" where
  "describes_nothing w =
     (shell_stdout w nearest_tag_cmd = Decoded [] \<and> shell_stdout w describe_cmd = Decoded [])"

text \<open>The first line of an output as the reader delivers it, without its terminator.\<close>

definition first_line :: "pystr \<Rightarrow> pystr" where
  "first_line s = takeWhile (\<lambda>c. c \<noteq> LF) (universal_newlines s)"

subsection \<open>Sample hosts\<close>

text \<open>
  Concrete hosts on which the theorems are instantiated. The lexer library is installed
  with its two classes, and the tool prints: a tag and its description; nothing; two
  lines; an untidy first line ending in \<^verbatim>\<open>\r\n\<close>; the tag \<^verbatim>\<open>v1\<close> preceded by U+00A0,
  checked out; a tag whose whole name is U+00A0, one commit behind; a tag name whose
  bytes do not decode on this host.
\<close>

datatype lexer_class = SolidityLexerClass | YulLexerClass

definition pygments_module :: "pystr \<rightharpoonup> lexer_class" where
  "pygments_module =
     [str_lit ''SolidityLexer'' \<mapsto> SolidityLexerClass, str_lit ''YulLexer'' \<mapsto> YulLexerClass]"

definition host :: "(pystr \<Rightarrow> captured) \<Rightarrow> lexer_class world" where
  "host out = \<lparr>pygments_lexer_solidity = Some pygments_module, shell_stdout = out, spawned = []\<rparr>"

definition git_tagged :: "pystr \<Rightarrow> captured" where
  "git_tagged cmd =
     (if cmd = nearest_tag_cmd then Decoded (str_lit ''v0.3.3'' @ [LF])
      else if cmd = describe_cmd then Decoded (str_lit ''v0.3.3-12-g1a2b3c4'' @ [LF])
      else Decoded [])"

definition no_output :: "pystr \<Rightarrow> captured" where
  "no_output cmd = Decoded []"

definition two_lines :: "pystr \<Rightarrow> captured" where
  "two_lines cmd = Decoded (str_lit ''v0.3.3'' @ [LF] @ str_lit ''v0.3.2'' @ [LF])"

definition untidy :: "pystr \<Rightarrow> captured" where
  "untidy cmd = Decoded (str_lit ''  v0.3.3 '' @ [CR, LF] @ str_lit ''second'' @ [LF])"

definition nbsp_v1 :: "pystr \<Rightarrow> captured" where
  "nbsp_v1 cmd = Decoded (0xA0 # str_lit ''v1'' @ [LF])"

definition nbsp_only :: "pystr \<Rightarrow> captured" where
  "nbsp_only cmd =
     (if cmd = nearest_tag_cmd then Decoded [0xA0, LF]
      else Decoded (0xA0 # str_lit ''-1-g76df9e6'' @ [LF]))"

definition undecodable_name :: "pystr \<Rightarrow> captured" where
  "undecodable_name cmd = Undecodable"

definition bare_host :: "lexer_class world" where
  "bare_host = \<lparr>pygments_lexer_solidity = None, shell_stdout = git_tagged, spawned = []\<rparr>"

definition fresh_app :: "lexer_class sphinx" where
  "fresh_app = \<lparr>lexer_classes = Map.empty\<rparr>"

section \<open>Properties of the text operations\<close>

lemma str_lit_eq_iff [simp]: "str_lit a = str_lit b \<longleftrightarrow> a = b"
  by (simp add: str_lit_def inj_map_eq_map inj_of_char)

lemma isspace_LF [simp]: "isspace LF"
  by (simp add: isspace_def)

lemma lstrip_Nil [simp]: "lstrip [] = []"
  by (simp add: lstrip_def)

lemma rstrip_Nil [simp]: "rstrip [] = []"
  by (simp add: rstrip_def)

lemma strip_Nil [simp]: "strip [] = []"
  by (simp add: strip_def)

lemma rstrip_snoc: "rstrip (s @ [c]) = (if isspace c then rstrip s else s @ [c])"
  by (simp add: rstrip_def)

lemma set_lstrip: "set (lstrip s) \<subseteq> set s"
  by (simp add: lstrip_def set_dropWhileD subsetI)

lemma set_rstrip: "set (rstrip s) \<subseteq> set s"
  unfolding rstrip_def using set_dropWhileD [of _ isspace "rev s"] by auto

lemma set_strip: "set (strip s) \<subseteq> set s"
  unfolding strip_def using set_lstrip set_rstrip by blast

lemma hd_lstrip: "lstrip s \<noteq> [] \<Longrightarrow> \<not> isspace (hd (lstrip s))"
  unfolding lstrip_def by (rule hd_dropWhile)

lemma last_rstrip: "rstrip s \<noteq> [] \<Longrightarrow> \<not> isspace (last (rstrip s))"
  unfolding rstrip_def using hd_dropWhile [of isspace "rev s"] by (simp add: last_rev)

text \<open>Stripping on the right removes a suffix of whitespace and nothing else.\<close>

lemma rstrip_prefix: "\<exists>ws. s = rstrip s @ ws \<and> (\<forall>c\<in>set ws. isspace c)"
proof -
  have "rev s = takeWhile isspace (rev s) @ dropWhile isspace (rev s)" by simp
  then have "s = rev (dropWhile isspace (rev s)) @ rev (takeWhile isspace (rev s))"
    by (metis rev_append rev_rev_ident)
  moreover have "\<forall>c\<in>set (rev (takeWhile isspace (rev s))). isspace c"
    by (auto dest: set_takeWhileD)
  ultimately show ?thesis unfolding rstrip_def by blast
qed

lemma hd_rstrip: "rstrip s \<noteq> [] \<Longrightarrow> hd (rstrip s) = hd s"
  using rstrip_prefix [of s] by (metis hd_append2)

lemma hd_strip: "strip s \<noteq> [] \<Longrightarrow> \<not> isspace (hd (strip s))"
proof -
  assume ne: "strip s \<noteq> []"
  then have "lstrip s \<noteq> []" by (auto simp add: strip_def)
  with ne show ?thesis
    using hd_rstrip [of "lstrip s"] hd_lstrip [of s] by (simp add: strip_def)
qed

lemma last_strip: "strip s \<noteq> [] \<Longrightarrow> \<not> isspace (last (strip s))"
  unfolding strip_def by (rule last_rstrip)

lemma rstrip_nonempty: "s \<noteq> [] \<Longrightarrow> \<not> isspace (hd s) \<Longrightarrow> rstrip s \<noteq> []"
proof
  assume ne: "s \<noteq> []" and h: "\<not> isspace (hd s)" and e: "rstrip s = []"
  obtain ws where "s = rstrip s @ ws" and ws: "\<forall>c\<in>set ws. isspace c"
    using rstrip_prefix by blast
  with e have "s = ws" by simp
  with ne ws have "isspace (hd s)" by simp
  with h show False by simp
qed

text \<open>A text strips to nothing exactly when it holds nothing but whitespace.\<close>

lemma strip_eq_Nil_iff: "strip s = [] \<longleftrightarrow> (\<forall>c\<in>set s. isspace c)"
proof
  assume e: "strip s = []"
  have "lstrip s = []"
  proof (rule ccontr)
    assume ne: "lstrip s \<noteq> []"
    then have "\<not> isspace (hd (lstrip s))" by (rule hd_lstrip)
    with ne have "rstrip (lstrip s) \<noteq> []" by (rule rstrip_nonempty)
    with e show False by (simp add: strip_def)
  qed
  then show "\<forall>c\<in>set s. isspace c" by (simp add: lstrip_def dropWhile_eq_Nil_conv)
next
  assume "\<forall>c\<in>set s. isspace c"
  then have "lstrip s = []" by (simp add: lstrip_def)
  then show "strip s = []" by (simp add: strip_def)
qed

text \<open>A text that neither begins nor ends with whitespace is left as it is.\<close>

lemma strip_id: "s \<noteq> [] \<Longrightarrow> \<not> isspace (hd s) \<Longrightarrow> \<not> isspace (last s) \<Longrightarrow> strip s = s"
proof -
  assume ne: "s \<noteq> []" and h: "\<not> isspace (hd s)" and l: "\<not> isspace (last s)"
  from ne h have "lstrip s = s" by (cases s) (simp_all add: lstrip_def)
  moreover from ne l have "rstrip s = s"
    by (cases s rule: rev_cases) (simp_all add: rstrip_def)
  ultimately show ?thesis by (simp add: strip_def)
qed

section \<open>Properties of the reader\<close>

lemma dropWhile_not_LF_Nil: "LF \<notin> set f \<Longrightarrow> dropWhile (\<lambda>c. c \<noteq> LF) f = []"
  by (induction f) auto

lemma takeWhile_not_LF_all: "LF \<notin> set f \<Longrightarrow> takeWhile (\<lambda>c. c \<noteq> LF) f = f"
  by (induction f) auto

lemma dropWhile_not_LF_Cons:
  "LF \<in> set f \<Longrightarrow> \<exists>rest. dropWhile (\<lambda>c. c \<noteq> LF) f = LF # rest"
  by (induction f) auto

lemma takeWhile_line: "LF \<notin> set t \<Longrightarrow> takeWhile (\<lambda>c. c \<noteq> LF) (t @ LF # r) = t"
  by (induction t) auto

lemma split_line_fst:
  "fst (split_line f) = (if LF \<in> set f then takeWhile (\<lambda>c. c \<noteq> LF) f @ [LF] else f)"
proof (cases "LF \<in> set f")
  case True
  then obtain rest where "dropWhile (\<lambda>c. c \<noteq> LF) f = LF # rest"
    using dropWhile_not_LF_Cons by blast
  with True show ?thesis by (simp add: split_line_def)
next
  case False
  then show ?thesis by (simp add: split_line_def dropWhile_not_LF_Nil)
qed

lemma strip_snoc_LF: "strip (s @ [LF]) = strip s"
proof (cases "\<forall>c\<in>set s. isspace c")
  case True
  then have "lstrip (s @ [LF]) = []" "lstrip s = []"
    by (simp_all add: lstrip_def)
  then show ?thesis by (simp add: strip_def)
next
  case False
  then have "lstrip (s @ [LF]) = lstrip s @ [LF]"
    by (auto simp add: lstrip_def dropWhile_append1)
  then show ?thesis by (simp add: strip_def rstrip_snoc)
qed

text \<open>The line terminator that a line keeps is whitespace, so \<open>strip\<close> drops it.\<close>

lemma strip_split_line: "strip (fst (split_line f)) = strip (takeWhile (\<lambda>c. c \<noteq> LF) f)"
proof (cases "LF \<in> set f")
  case True
  then show ?thesis by (simp add: split_line_fst strip_snoc_LF)
next
  case False
  then show ?thesis by (simp add: split_line_fst takeWhile_not_LF_all)
qed

lemma strip_line_first_line:
  "strip (fst (split_line (universal_newlines s))) = strip (first_line s)"
  by (simp add: strip_split_line first_line_def)

lemma LF_notin_first_line: "LF \<notin> set (first_line s)"
  by (auto simp add: first_line_def dest: set_takeWhileD)

lemma CR_notin_universal_newlines: "CR \<notin> set (universal_newlines s)"
  by (induction s rule: universal_newlines.induct) auto

lemma universal_newlines_id: "CR \<notin> set s \<Longrightarrow> universal_newlines s = s"
  by (induction s rule: universal_newlines.induct) auto

lemma CR_notin_first_line: "CR \<notin> set (first_line s)"
  using CR_notin_universal_newlines [of s]
  by (auto simp add: first_line_def dest: set_takeWhileD)

text \<open>The first line of a printed name followed by a line break is the name.\<close>

lemma first_line_name_line: "name_line t \<Longrightarrow> first_line (t @ [LF]) = t"
proof -
  assume n: "name_line t"
  then have "CR \<notin> set (t @ [LF])" by (simp add: name_line_def)
  then have "universal_newlines (t @ [LF]) = t @ [LF]" by (rule universal_newlines_id)
  moreover have "takeWhile (\<lambda>c. c \<noteq> LF) (t @ [LF]) = t"
    using n by (simp add: name_line_def takeWhile_line)
  ultimately show ?thesis by (simp add: first_line_def)
qed

lemma first_line_Nil [simp]: "first_line [] = []"
  by (simp add: first_line_def)

section \<open>Properties of the load\<close>

lemma import_lexers_spawned [simp]: "import_lexers (w\<lparr>spawned := x\<rparr>) = import_lexers w"
  by (simp add: import_lexers_def)

lemma load_conf_Inl: "import_lexers w = Inl e \<Longrightarrow> load_conf w = (Inl e, w)"
  by (simp add: load_conf_def)

text \<open>The three ways the load goes on once the import has succeeded.\<close>

lemma load_conf_undecodable1:
  "import_lexers w = Inr (sl, yl) \<Longrightarrow> shell_stdout w nearest_tag_cmd = Undecodable \<Longrightarrow>
   load_conf w = (Inl UnicodeDecodeError, w\<lparr>spawned := spawned w @ [nearest_tag_cmd]\<rparr>)"
  by (simp add: load_conf_def popen_def readline_def)

lemma load_conf_undecodable2:
  "import_lexers w = Inr (sl, yl) \<Longrightarrow> shell_stdout w nearest_tag_cmd = Decoded o1 \<Longrightarrow>
   shell_stdout w describe_cmd = Undecodable \<Longrightarrow>
   load_conf w =
     (Inl UnicodeDecodeError, w\<lparr>spawned := spawned w @ [nearest_tag_cmd, describe_cmd]\<rparr>)"
  by (simp add: load_conf_def popen_def readline_def split: prod.splits)

lemma load_conf_decoded:
  "import_lexers w = Inr (sl, yl) \<Longrightarrow> shell_stdout w nearest_tag_cmd = Decoded o1 \<Longrightarrow>
   shell_stdout w describe_cmd = Decoded o2 \<Longrightarrow>
   \<exists>c. load_conf w = (Inr c, w\<lparr>spawned := spawned w @ [nearest_tag_cmd, describe_cmd]\<rparr>) \<and>
       SolidityLexer c = sl \<and> YulLexer c = yl \<and>
       version c = strip (first_line o1) \<and> release c = strip (first_line o2) \<and>
       project c = str_lit ''Solang Solidity Compiler'' \<and>
       extensions c = [str_lit ''sphinx_tabs.tabs''] \<and>
       sphinx_tabs_disable_tab_closing c \<and>
       master_doc c = str_lit ''index''"
  by (simp add: load_conf_def popen_def readline_def Let_def case_prod_beta
      strip_line_first_line)

text \<open>A load that completes had its import succeed and both outputs decode.\<close>

lemma load_conf_InrD:
  assumes "fst (load_conf w) = Inr c"
  shows "\<exists>o1 o2. import_lexers w = Inr (SolidityLexer c, YulLexer c) \<and>
           shell_stdout w nearest_tag_cmd = Decoded o1 \<and>
           shell_stdout w describe_cmd = Decoded o2 \<and>
           version c = strip (first_line o1) \<and> release c = strip (first_line o2) \<and>
           extensions c = [str_lit ''sphinx_tabs.tabs''] \<and>
           sphinx_tabs_disable_tab_closing c"
proof (cases "import_lexers w")
  case (Inl e)
  with assms show ?thesis by (simp add: load_conf_Inl)
next
  case (Inr p)
  then obtain sl yl where i: "import_lexers w = Inr (sl, yl)" by (cases p) simp
  show ?thesis
  proof (cases "shell_stdout w nearest_tag_cmd")
    case Undecodable
    with assms i show ?thesis by (simp add: load_conf_undecodable1)
  next
    case (Decoded o1)
    note d1 = this
    show ?thesis
    proof (cases "shell_stdout w describe_cmd")
      case Undecodable
      with assms i d1 show ?thesis by (simp add: load_conf_undecodable2)
    next
      case (Decoded o2)
      from load_conf_decoded [OF i d1 Decoded] assms i d1 Decoded
      show ?thesis by auto
    qed
  qed
qed

text \<open>The load changes nothing of the host but the log, and does not read the log.\<close>

lemma load_conf_snd: "\<exists>x. snd (load_conf w) = w\<lparr>spawned := x\<rparr>"
proof (cases "import_lexers w")
  case (Inl e)
  then have "snd (load_conf w) = w\<lparr>spawned := spawned w\<rparr>" by (simp add: load_conf_Inl)
  then show ?thesis by blast
next
  case (Inr p)
  then obtain sl yl where i: "import_lexers w = Inr (sl, yl)" by (cases p) simp
  show ?thesis
  proof (cases "shell_stdout w nearest_tag_cmd")
    case Undecodable
    with i have "snd (load_conf w) = w\<lparr>spawned := spawned w @ [nearest_tag_cmd]\<rparr>"
      by (simp add: load_conf_undecodable1)
    then show ?thesis by blast
  next
    case (Decoded o1)
    note d1 = this
    show ?thesis
    proof (cases "shell_stdout w describe_cmd")
      case Undecodable
      with i d1
      have "snd (load_conf w) = w\<lparr>spawned := spawned w @ [nearest_tag_cmd, describe_cmd]\<rparr>"
        by (simp add: load_conf_undecodable2)
      then show ?thesis by blast
    next
      case (Decoded o2)
      from load_conf_decoded [OF i d1 Decoded]
      have "snd (load_conf w) = w\<lparr>spawned := spawned w @ [nearest_tag_cmd, describe_cmd]\<rparr>"
        by auto
      then show ?thesis by blast
    qed
  qed
qed

lemma load_conf_ignores_log: "fst (load_conf (w\<lparr>spawned := x\<rparr>)) = fst (load_conf w)"
  by (simp add: load_conf_def popen_def split: sum.splits prod.splits)

section \<open>The sample hosts\<close>

lemma import_lexers_host: "import_lexers (host out) = Inr (SolidityLexerClass, YulLexerClass)"
  by (simp add: import_lexers_def host_def pygments_module_def)

lemma shell_stdout_host [simp]: "shell_stdout (host out) = out"
  by (simp add: host_def)

lemma spawned_host [simp]: "spawned (host out) = []"
  by (simp add: host_def)

lemma describes_git_tagged:
  "describes (host git_tagged) (str_lit ''v0.3.3'') (str_lit ''v0.3.3-12-g1a2b3c4'')"
  by (simp add: describes_def git_tagged_def name_line_def str_lit_def)

lemma describes_nothing_no_output: "describes_nothing (host no_output)"
  by (simp add: describes_nothing_def no_output_def)

lemma strip_tag: "strip (str_lit ''v0.3.3'') = str_lit ''v0.3.3''"
  by (simp add: strip_def lstrip_def rstrip_def str_lit_def isspace_def)

lemma strip_descr: "strip (str_lit ''v0.3.3-12-g1a2b3c4'') = str_lit ''v0.3.3-12-g1a2b3c4''"
  by (simp add: strip_def lstrip_def rstrip_def str_lit_def isspace_def)

lemma load_git_tagged:
  "\<exists>c. fst (load_conf (host git_tagged)) = Inr c \<and>
       SolidityLexer c = SolidityLexerClass \<and> YulLexer c = YulLexerClass \<and>
       project c = str_lit ''Solang Solidity Compiler'' \<and> master_doc c = str_lit ''index''"
proof -
  have "shell_stdout (host git_tagged) nearest_tag_cmd = Decoded (str_lit ''v0.3.3'' @ [LF])"
    and "shell_stdout (host git_tagged) describe_cmd =
           Decoded (str_lit ''v0.3.3-12-g1a2b3c4'' @ [LF])"
    by (simp_all add: git_tagged_def)
  from load_conf_decoded [OF import_lexers_host this] show ?thesis by auto
qed

lemma load_no_output: "\<exists>c. fst (load_conf (host no_output)) = Inr c"
proof -
  have "shell_stdout (host no_output) nearest_tag_cmd = Decoded []"
    and "shell_stdout (host no_output) describe_cmd = Decoded []"
    by (simp_all add: no_output_def)
  from load_conf_decoded [OF import_lexers_host this] show ?thesis by auto
qed

lemma first_line_two_lines:
  "first_line (str_lit ''v0.3.3'' @ LF # str_lit ''v0.3.2'' @ [LF]) = str_lit ''v0.3.3''"
  by (simp add: first_line_def str_lit_def)

lemma first_line_untidy:
  "first_line (str_lit ''  v0.3.3 '' @ CR # LF # str_lit ''second'' @ [LF]) =
     str_lit ''  v0.3.3 ''"
  by (simp add: first_line_def str_lit_def)

lemma strip_untidy: "strip (str_lit ''  v0.3.3 '') = str_lit ''v0.3.3''"
  by (simp add: strip_def lstrip_def rstrip_def str_lit_def isspace_def)

lemma load_untidy:
  "\<exists>c. fst (load_conf (host untidy)) = Inr c \<and>
       version c = str_lit ''v0.3.3'' \<and> release c = str_lit ''v0.3.3''"
proof -
  have "shell_stdout (host untidy) cmd =
      Decoded (str_lit ''  v0.3.3 '' @ [CR, LF] @ str_lit ''second'' @ [LF])" for cmd
    by (simp add: untidy_def)
  from load_conf_decoded [OF import_lexers_host this this] show ?thesis
    by (auto simp add: first_line_untidy strip_untidy)
qed

section \<open>The claims\<close>

text \<open>
  Claim C1, as amended. On a host whose tool finds a tag, each query printing its name
  and a line break in bytes that decode, a load whose import succeeded completes, and
  \<open>version\<close> is the nearest tag's name and \<open>release\<close> the full description, each with
  the whitespace at both ends removed. Each is the printed name itself when that name
  neither begins nor ends with whitespace.
\<close>

theorem tagged_version_release:
  assumes "import_lexers w = Inr (sl, yl)" and "describes w tag descr"
  shows "\<exists>c. fst (load_conf w) = Inr c \<and> version c = strip tag \<and> release c = strip descr \<and>
           (tag \<noteq> [] \<and> \<not> isspace (hd tag) \<and> \<not> isspace (last tag) \<longrightarrow> version c = tag) \<and>
           (descr \<noteq> [] \<and> \<not> isspace (hd descr) \<and> \<not> isspace (last descr) \<longrightarrow>
              release c = descr)"
proof -
  from assms(2) have t: "name_line tag" and d: "name_line descr"
    and o1: "shell_stdout w nearest_tag_cmd = Decoded (tag @ [LF])"
    and o2: "shell_stdout w describe_cmd = Decoded (descr @ [LF])"
    by (simp_all add: describes_def)
  from load_conf_decoded [OF assms(1) o1 o2]
  obtain c where c: "fst (load_conf w) = Inr c"
    and v: "version c = strip (first_line (tag @ [LF]))"
    and r: "release c = strip (first_line (descr @ [LF]))"
    by auto
  from v t have v': "version c = strip tag" by (simp add: first_line_name_line)
  from r d have r': "release c = strip descr" by (simp add: first_line_name_line)
  from c v' r' show ?thesis by (auto simp add: strip_id)
qed

theorem tagged_version_release_witness:
  "describes (host git_tagged) (str_lit ''v0.3.3'') (str_lit ''v0.3.3-12-g1a2b3c4'') \<and>
   loaded version (host git_tagged) = Inr (str_lit ''v0.3.3'') \<and>
   loaded release (host git_tagged) = Inr (str_lit ''v0.3.3-12-g1a2b3c4'')"
proof -
  from tagged_version_release [OF import_lexers_host describes_git_tagged]
  obtain c where "fst (load_conf (host git_tagged)) = Inr c"
    and "version c = strip (str_lit ''v0.3.3'')"
    and "release c = strip (str_lit ''v0.3.3-12-g1a2b3c4'')"
    by blast
  with describes_git_tagged show ?thesis by (simp add: loaded_def strip_tag strip_descr)
qed

text \<open>
  The claim as first stated fails for a tag whose name begins with whitespace that is
  no control character: for the checked-out tag U+00A0 \<^verbatim>\<open>v1\<close> the stored \<open>version\<close> is
  \<^verbatim>\<open>v1\<close>, which is neither the tag's name nor that name without its trailing whitespace.
  For a tag whose name does not decode there is no \<open>version\<close> at all: the load raises.
\<close>

theorem leading_space_tag_counterexample:
  "describes (host nbsp_v1) (0xA0 # str_lit ''v1'') (0xA0 # str_lit ''v1'') \<and>
   loaded version (host nbsp_v1) = Inr (str_lit ''v1'') \<and>
   str_lit ''v1'' \<noteq> 0xA0 # str_lit ''v1'' \<and>
   str_lit ''v1'' \<noteq> rstrip (0xA0 # str_lit ''v1'') \<and>
   loaded version (host undecodable_name) = Inl UnicodeDecodeError"
proof -
  have o: "shell_stdout (host nbsp_v1) cmd = Decoded ((0xA0 # str_lit ''v1'') @ [LF])" for cmd
    by (simp add: nbsp_v1_def)
  have n: "name_line (0xA0 # str_lit ''v1'')"
    by (simp add: name_line_def str_lit_def)
  from o n have d: "describes (host nbsp_v1) (0xA0 # str_lit ''v1'') (0xA0 # str_lit ''v1'')"
    by (simp add: describes_def)
  from load_conf_decoded [OF import_lexers_host o o]
  obtain c where "fst (load_conf (host nbsp_v1)) = Inr c"
    and "version c = strip (first_line ((0xA0 # str_lit ''v1'') @ [LF]))"
    by auto
  moreover have "first_line (0xA0 # str_lit ''v1'' @ [LF]) = 0xA0 # str_lit ''v1''"
    using first_line_name_line [OF n] by simp
  moreover have "strip (0xA0 # str_lit ''v1'') = str_lit ''v1''"
    by (simp add: strip_def lstrip_def rstrip_def str_lit_def isspace_def)
  ultimately have v: "loaded version (host nbsp_v1) = Inr (str_lit ''v1'')"
    by (simp add: loaded_def)
  have r: "rstrip (0xA0 # str_lit ''v1'') = 0xA0 # str_lit ''v1''"
    by (simp add: rstrip_def str_lit_def isspace_def)
  have ne: "str_lit ''v1'' \<noteq> 0xA0 # str_lit ''v1''"
    by (simp add: str_lit_def)
  have "shell_stdout (host undecodable_name) nearest_tag_cmd = Undecodable"
    by (simp add: undecodable_name_def)
  from load_conf_undecodable1 [OF import_lexers_host this]
  have u: "loaded version (host undecodable_name) = Inl UnicodeDecodeError"
    by (simp add: loaded_def)
  from d v r ne u show ?thesis by simp
qed

text \<open>
  Claim C2. On a host where the tool prints nothing to either query (no tag, no
  repository, or no tool), a load whose import at line 20 succeeded does not fail, and
  both \<open>version\<close> and \<open>release\<close> are the empty string.
\<close>

theorem untagged_empty_strings:
  assumes "import_lexers w = Inr (sl, yl)" and "describes_nothing w"
  shows "\<exists>c. fst (load_conf w) = Inr c \<and> version c = [] \<and> release c = []"
proof -
  from assms(2) have o1: "shell_stdout w nearest_tag_cmd = Decoded []"
    and o2: "shell_stdout w describe_cmd = Decoded []"
    by (simp_all add: describes_nothing_def)
  from load_conf_decoded [OF assms(1) o1 o2] show ?thesis by auto
qed

theorem untagged_empty_strings_witness:
  "describes_nothing (host no_output) \<and>
   (case fst (load_conf (host no_output)) of
      Inl e \<Rightarrow> False
    | Inr c \<Rightarrow> version c = [] \<and> release c = [])"
proof -
  from untagged_empty_strings [OF import_lexers_host describes_nothing_no_output]
  obtain c where "fst (load_conf (host no_output)) = Inr c" "version c = []" "release c = []"
    by blast
  with describes_nothing_no_output show ?thesis by simp
qed

text \<open>
  Claim C3. Whatever generator object the hook receives, after the hook has returned
  the generator's lexer table maps \<^verbatim>\<open>Solidity\<close> to the module's \<open>SolidityLexer\<close> class and
  \<^verbatim>\<open>Yul\<close> to its \<open>YulLexer\<close> class.
\<close>

theorem setup_registers_lexers:
  "lexer_classes (setup_hook g app) (str_lit ''Solidity'') = Some (SolidityLexer g) \<and>
   lexer_classes (setup_hook g app) (str_lit ''Yul'') = Some (YulLexer g)"
  by (simp add: setup_hook_def add_lexer_def)

theorem setup_registers_lexers_witness:
  "(case fst (load_conf (host git_tagged)) of
      Inl e \<Rightarrow> False
    | Inr g \<Rightarrow>
        lexer_classes (setup_hook g fresh_app) (str_lit ''Solidity'') = Some SolidityLexerClass \<and>
        lexer_classes (setup_hook g fresh_app) (str_lit ''Yul'') = Some YulLexerClass)"
proof -
  obtain g where g: "fst (load_conf (host git_tagged)) = Inr g"
    and "SolidityLexer g = SolidityLexerClass" "YulLexer g = YulLexerClass"
    using load_git_tagged by blast
  with setup_registers_lexers [of g fresh_app] show ?thesis by simp
qed

text \<open>
  Claim C4, as amended. After the load each of the two values is empty exactly when the
  first line its own query printed holds nothing but whitespace, and non-empty otherwise.
  So both are empty when the tool prints nothing and both are non-empty when each printed
  name has a character that is not whitespace; the two reads are independent of each
  other.
\<close>

theorem version_release_empty_iff_blank:
  assumes "fst (load_conf w) = Inr c"
  shows "\<exists>o1 o2. shell_stdout w nearest_tag_cmd = Decoded o1 \<and>
           shell_stdout w describe_cmd = Decoded o2 \<and>
           (version c = [] \<longleftrightarrow> (\<forall>ch\<in>set (first_line o1). isspace ch)) \<and>
           (release c = [] \<longleftrightarrow> (\<forall>ch\<in>set (first_line o2). isspace ch))"
proof -
  from load_conf_InrD [OF assms]
  obtain o1 o2 where "shell_stdout w nearest_tag_cmd = Decoded o1"
    and "shell_stdout w describe_cmd = Decoded o2"
    and "version c = strip (first_line o1)" and "release c = strip (first_line o2)"
    by blast
  then show ?thesis by (simp add: strip_eq_Nil_iff)
qed

theorem version_release_empty_iff_blank_witness:
  "(case fst (load_conf (host git_tagged)) of
      Inl e \<Rightarrow> False
    | Inr c \<Rightarrow> version c \<noteq> [] \<and> release c \<noteq> []) \<and>
   (case fst (load_conf (host no_output)) of
      Inl e \<Rightarrow> False
    | Inr c \<Rightarrow> version c = [] \<and> release c = [])"
proof -
  obtain c where c: "fst (load_conf (host git_tagged)) = Inr c"
    using load_git_tagged by blast
  from version_release_empty_iff_blank [OF c]
  have "version c \<noteq> [] \<and> release c \<noteq> []"
    by (auto simp add: git_tagged_def first_line_def str_lit_def isspace_def)
  moreover
  obtain d where d: "fst (load_conf (host no_output)) = Inr d"
    using load_no_output by blast
  from version_release_empty_iff_blank [OF d]
  have "version d = [] \<and> release d = []"
    by (auto simp add: no_output_def)
  ultimately show ?thesis using c d by simp
qed

text \<open>
  The claim as first stated, that no pair other than two non-empty values or two empty
  strings arises, fails for a tag whose whole name is U+00A0, one commit behind the
  checked-out one: \<open>version\<close> is empty and \<open>release\<close> is not.
\<close>

theorem mixed_pair_counterexample:
  "shell_stdout (host nbsp_only) nearest_tag_cmd = Decoded [0xA0, LF] \<and>
   shell_stdout (host nbsp_only) describe_cmd = Decoded (0xA0 # str_lit ''-1-g76df9e6'' @ [LF]) \<and>
   loaded version (host nbsp_only) = Inr [] \<and>
   loaded release (host nbsp_only) = Inr (str_lit ''-1-g76df9e6'')"
proof -
  have o1: "shell_stdout (host nbsp_only) nearest_tag_cmd = Decoded [0xA0, LF]"
    by (simp add: nbsp_only_def)
  have o2: "shell_stdout (host nbsp_only) describe_cmd =
      Decoded (0xA0 # str_lit ''-1-g76df9e6'' @ [LF])"
    by (simp add: nbsp_only_def)
  from load_conf_decoded [OF import_lexers_host o1 o2]
  obtain c where "fst (load_conf (host nbsp_only)) = Inr c"
    and "version c = strip (first_line [0xA0, LF])"
    and "release c = strip (first_line (0xA0 # str_lit ''-1-g76df9e6'' @ [LF]))"
    by auto
  moreover have "strip (first_line [0xA0, LF]) = []"
    by (simp add: first_line_def strip_def lstrip_def isspace_def)
  moreover have "strip (first_line (0xA0 # str_lit ''-1-g76df9e6'' @ [LF])) =
      str_lit ''-1-g76df9e6''"
    by (simp add: first_line_def strip_def lstrip_def rstrip_def str_lit_def isspace_def)
  ultimately show ?thesis using o1 o2 by (simp add: loaded_def)
qed

text \<open>
  Claim C5, as amended. A load whose import succeeded runs the tool first for the nearest
  tag's name. When that output does not decode the load raises after this one run;
  otherwise it runs the tool a second time, for the description, so that a load that
  completes has run it exactly twice. For each run it stores the first line of the
  captured output stripped of whitespace on both sides.
\<close>

theorem spawns_and_stored_lines:
  assumes "import_lexers w = Inr (sl, yl)"
  shows "(case shell_stdout w nearest_tag_cmd of
            Undecodable \<Rightarrow>
              load_conf w =
                (Inl UnicodeDecodeError, w\<lparr>spawned := spawned w @ [nearest_tag_cmd]\<rparr>)
          | Decoded o1 \<Rightarrow>
              spawned (snd (load_conf w)) = spawned w @ [nearest_tag_cmd, describe_cmd] \<and>
              (case shell_stdout w describe_cmd of
                 Undecodable \<Rightarrow> fst (load_conf w) = Inl UnicodeDecodeError
               | Decoded o2 \<Rightarrow>
                   (\<exists>c. fst (load_conf w) = Inr c \<and>
                      version c = strip (first_line o1) \<and>
                      release c = strip (first_line o2))))"
proof (cases "shell_stdout w nearest_tag_cmd")
  case Undecodable
  with load_conf_undecodable1 [OF assms] show ?thesis by simp
next
  case (Decoded o1)
  note d1 = this
  show ?thesis
  proof (cases "shell_stdout w describe_cmd")
    case Undecodable
    with load_conf_undecodable2 [OF assms d1] d1 show ?thesis by simp
  next
    case (Decoded o2)
    from load_conf_decoded [OF assms d1 Decoded] d1 Decoded show ?thesis by auto
  qed
qed

theorem spawns_and_stored_lines_witness:
  "spawned (snd (load_conf (host git_tagged))) = [nearest_tag_cmd, describe_cmd] \<and>
   loaded version (host git_tagged) = Inr (str_lit ''v0.3.3'') \<and>
   loaded release (host git_tagged) = Inr (str_lit ''v0.3.3-12-g1a2b3c4'') \<and>
   spawned (snd (load_conf (host undecodable_name))) = [nearest_tag_cmd] \<and>
   fst (load_conf (host undecodable_name)) = Inl UnicodeDecodeError"
proof -
  have o1: "shell_stdout (host git_tagged) nearest_tag_cmd = Decoded (str_lit ''v0.3.3'' @ [LF])"
    and o2: "shell_stdout (host git_tagged) describe_cmd =
               Decoded (str_lit ''v0.3.3-12-g1a2b3c4'' @ [LF])"
    by (simp_all add: git_tagged_def)
  have n: "name_line (str_lit ''v0.3.3'')" "name_line (str_lit ''v0.3.3-12-g1a2b3c4'')"
    by (simp_all add: name_line_def str_lit_def)
  from spawns_and_stored_lines [OF import_lexers_host, of git_tagged] o1 o2
  have s: "spawned (snd (load_conf (host git_tagged))) = [nearest_tag_cmd, describe_cmd]"
    and "\<exists>c. fst (load_conf (host git_tagged)) = Inr c \<and>
            version c = strip (first_line (str_lit ''v0.3.3'' @ [LF])) \<and>
            release c = strip (first_line (str_lit ''v0.3.3-12-g1a2b3c4'' @ [LF]))"
    by simp_all
  then obtain c where "fst (load_conf (host git_tagged)) = Inr c"
    and "version c = strip (first_line (str_lit ''v0.3.3'' @ [LF]))"
    and "release c = strip (first_line (str_lit ''v0.3.3-12-g1a2b3c4'' @ [LF]))"
    by blast
  with n have v: "loaded version (host git_tagged) = Inr (str_lit ''v0.3.3'')"
    and r: "loaded release (host git_tagged) = Inr (str_lit ''v0.3.3-12-g1a2b3c4'')"
    by (simp_all add: loaded_def first_line_name_line strip_tag strip_descr)
  have "shell_stdout (host undecodable_name) nearest_tag_cmd = Undecodable"
    by (simp add: undecodable_name_def)
  with spawns_and_stored_lines [OF import_lexers_host, of undecodable_name]
  have "load_conf (host undecodable_name) =
      (Inl UnicodeDecodeError,
       (host undecodable_name)\<lparr>spawned := spawned (host undecodable_name) @ [nearest_tag_cmd]\<rparr>)"
    by simp
  then have "spawned (snd (load_conf (host undecodable_name))) = [nearest_tag_cmd]"
    and "fst (load_conf (host undecodable_name)) = Inl UnicodeDecodeError"
    by simp_all
  with s v r show ?thesis by simp
qed

text \<open>
  The claim as first stated fails in three ways. A tag name that does not decode ends
  the load after one run of the tool. For the checked-out tag U+00A0 \<^verbatim>\<open>v1\<close> the stored
  \<open>version\<close> is \<^verbatim>\<open>v1\<close>, not the captured output without its trailing whitespace, since
  the whitespace in front is removed as well. And of an output of two lines only the
  first is stored.
\<close>

theorem captured_output_counterexample:
  "spawned (snd (load_conf (host undecodable_name))) = [nearest_tag_cmd] \<and>
   loaded version (host undecodable_name) = Inl UnicodeDecodeError \<and>
   shell_stdout (host nbsp_v1) nearest_tag_cmd = Decoded (0xA0 # str_lit ''v1'' @ [LF]) \<and>
   loaded version (host nbsp_v1) = Inr (str_lit ''v1'') \<and>
   rstrip (0xA0 # str_lit ''v1'' @ [LF]) = 0xA0 # str_lit ''v1'' \<and>
   str_lit ''v1'' \<noteq> 0xA0 # str_lit ''v1'' \<and>
   shell_stdout (host two_lines) nearest_tag_cmd =
     Decoded (str_lit ''v0.3.3'' @ [LF] @ str_lit ''v0.3.2'' @ [LF]) \<and>
   loaded version (host two_lines) = Inr (str_lit ''v0.3.3'') \<and>
   rstrip (str_lit ''v0.3.3'' @ [LF] @ str_lit ''v0.3.2'' @ [LF]) =
     str_lit ''v0.3.3'' @ [LF] @ str_lit ''v0.3.2'' \<and>
   str_lit ''v0.3.3'' \<noteq> str_lit ''v0.3.3'' @ [LF] @ str_lit ''v0.3.2''"
proof -
  have "shell_stdout (host undecodable_name) nearest_tag_cmd = Undecodable"
    by (simp add: undecodable_name_def)
  from load_conf_undecodable1 [OF import_lexers_host this]
  have u: "spawned (snd (load_conf (host undecodable_name))) = [nearest_tag_cmd]"
    "loaded version (host undecodable_name) = Inl UnicodeDecodeError"
    by (simp_all add: loaded_def)
  have o: "shell_stdout (host nbsp_v1) cmd = Decoded (0xA0 # str_lit ''v1'' @ [LF])" for cmd
    by (simp add: nbsp_v1_def)
  from load_conf_decoded [OF import_lexers_host o o]
  obtain c where "fst (load_conf (host nbsp_v1)) = Inr c"
    and "version c = strip (first_line (0xA0 # str_lit ''v1'' @ [LF]))"
    by auto
  moreover have "strip (first_line (0xA0 # str_lit ''v1'' @ [LF])) = str_lit ''v1''"
    by (simp add: first_line_def strip_def lstrip_def rstrip_def str_lit_def isspace_def)
  ultimately have v: "loaded version (host nbsp_v1) = Inr (str_lit ''v1'')"
    by (simp add: loaded_def)
  have r: "rstrip (0xA0 # str_lit ''v1'' @ [LF]) = 0xA0 # str_lit ''v1''"
    by (simp add: rstrip_def str_lit_def isspace_def)
  have ne: "str_lit ''v1'' \<noteq> 0xA0 # str_lit ''v1''"
    by (simp add: str_lit_def)
  have o': "shell_stdout (host two_lines) cmd =
      Decoded (str_lit ''v0.3.3'' @ [LF] @ str_lit ''v0.3.2'' @ [LF])" for cmd
    by (simp add: two_lines_def)
  from load_conf_decoded [OF import_lexers_host o' o']
  obtain d where "fst (load_conf (host two_lines)) = Inr d"
    and "version d = strip (first_line (str_lit ''v0.3.3'' @ [LF] @ str_lit ''v0.3.2'' @ [LF]))"
    by auto
  then have v': "loaded version (host two_lines) = Inr (str_lit ''v0.3.3'')"
    by (simp add: loaded_def first_line_two_lines strip_tag)
  have r': "rstrip (str_lit ''v0.3.3'' @ [LF] @ str_lit ''v0.3.2'' @ [LF]) =
      str_lit ''v0.3.3'' @ [LF] @ str_lit ''v0.3.2''"
    by (simp add: rstrip_def str_lit_def isspace_def)
  have ne': "str_lit ''v0.3.3'' \<noteq> str_lit ''v0.3.3'' @ [LF] @ str_lit ''v0.3.2''"
    by simp
  from u o v r ne o' v' r' ne' show ?thesis by simp
qed

text \<open>
  Claim C6. The load is idempotent: with the installed modules and the tool's answers
  unchanged, loading again from the host state the first load left behind gives the same
  outcome, hence the same value for every configuration key.
\<close>

theorem load_conf_idempotent:
  "fst (load_conf (snd (load_conf w))) = fst (load_conf w)"
proof -
  obtain x where "snd (load_conf w) = w\<lparr>spawned := x\<rparr>"
    using load_conf_snd by blast
  then show ?thesis by (simp add: load_conf_ignores_log)
qed

theorem load_conf_idempotent_witness:
  "fst (load_conf (snd (load_conf (host git_tagged)))) = fst (load_conf (host git_tagged)) \<and>
   spawned (snd (load_conf (host git_tagged))) \<noteq> spawned (host git_tagged) \<and>
   (case fst (load_conf (snd (load_conf (host git_tagged)))) of
      Inl e \<Rightarrow> False
    | Inr c \<Rightarrow> project c = str_lit ''Solang Solidity Compiler'' \<and> master_doc c = str_lit ''index'')"
proof -
  obtain c where c: "fst (load_conf (host git_tagged)) = Inr c"
    and k: "project c = str_lit ''Solang Solidity Compiler''" "master_doc c = str_lit ''index''"
    using load_git_tagged by blast
  have "shell_stdout (host git_tagged) nearest_tag_cmd = Decoded (str_lit ''v0.3.3'' @ [LF])"
    and "shell_stdout (host git_tagged) describe_cmd =
           Decoded (str_lit ''v0.3.3-12-g1a2b3c4'' @ [LF])"
    by (simp_all add: git_tagged_def)
  from load_conf_decoded [OF import_lexers_host this]
  have s: "spawned (snd (load_conf (host git_tagged))) \<noteq> spawned (host git_tagged)"
    by auto
  from load_conf_idempotent [of "host git_tagged"] c
  have "fst (load_conf (snd (load_conf (host git_tagged)))) = Inr c" by simp
  with c k s show ?thesis by simp
qed

text \<open>
  Claim C7. When the lexer library is not installed, the load ends at the import with
  an uncaught \<open>ModuleNotFoundError\<close> and leaves the host as it was: no command has been
  run, so no version string has been resolved, and no module exists whose hook the
  generator could call; the build ends with the same error.
\<close>

theorem missing_lexer_library_aborts:
  assumes "pygments_lexer_solidity w = None"
  shows "load_conf w = (Inl ModuleNotFoundError, w) \<and>
         sphinx_build w app = (Inl ModuleNotFoundError, w)"
  using assms by (simp add: sphinx_build_def load_conf_def import_lexers_def)

theorem missing_lexer_library_aborts_witness:
  "pygments_lexer_solidity bare_host = None \<and>
   fst (load_conf bare_host) = Inl ModuleNotFoundError \<and>
   spawned (snd (load_conf bare_host)) = [] \<and>
   fst (sphinx_build bare_host fresh_app) = Inl ModuleNotFoundError"
proof -
  have n: "pygments_lexer_solidity bare_host = None" by (simp add: bare_host_def)
  from missing_lexer_library_aborts [OF n, of fresh_app] n show ?thesis
    by (simp add: bare_host_def)
qed

text \<open>
  Claim C8. After the load the extension list has exactly one element, the identifier
  \<^verbatim>\<open>sphinx_tabs.tabs\<close> of the tab-handling extension.
\<close>

theorem extensions_single_tabs:
  assumes "fst (load_conf w) = Inr c"
  shows "extensions c = [str_lit ''sphinx_tabs.tabs''] \<and> length (extensions c) = 1"
  using load_conf_InrD [OF assms] by auto

theorem extensions_single_tabs_witness:
  "(case fst (load_conf (host no_output)) of
      Inl e \<Rightarrow> False
    | Inr c \<Rightarrow> extensions c = [str_lit ''sphinx_tabs.tabs''] \<and> length (extensions c) = 1)"
proof -
  obtain c where c: "fst (load_conf (host no_output)) = Inr c"
    using load_no_output by blast
  from extensions_single_tabs [OF c] c show ?thesis by simp
qed

text \<open>
  Claim C9. After the load, whatever the tool has printed, neither \<open>version\<close> nor
  \<open>release\<close> contains a line break, and neither begins or ends with whitespace; of
  an output of several lines only the first is kept.
\<close>

theorem version_release_stripped_line:
  assumes "fst (load_conf w) = Inr c"
  shows "LF \<notin> set (version c) \<and> CR \<notin> set (version c) \<and>
         LF \<notin> set (release c) \<and> CR \<notin> set (release c) \<and>
         (version c \<noteq> [] \<longrightarrow> \<not> isspace (hd (version c)) \<and> \<not> isspace (last (version c))) \<and>
         (release c \<noteq> [] \<longrightarrow> \<not> isspace (hd (release c)) \<and> \<not> isspace (last (release c)))"
proof -
  from load_conf_InrD [OF assms]
  obtain o1 o2 where v: "version c = strip (first_line o1)"
    and r: "release c = strip (first_line o2)"
    by blast
  have "LF \<notin> set (strip (first_line s)) \<and> CR \<notin> set (strip (first_line s))" for s
    using set_strip [of "first_line s"] LF_notin_first_line [of s] CR_notin_first_line [of s]
    by blast
  then show ?thesis
    unfolding v r using hd_strip last_strip by blast
qed

theorem version_release_stripped_line_witness:
  "(case fst (load_conf (host untidy)) of
      Inl e \<Rightarrow> False
    | Inr c \<Rightarrow>
        version c = str_lit ''v0.3.3'' \<and> release c = str_lit ''v0.3.3'' \<and>
        LF \<notin> set (version c) \<and> CR \<notin> set (version c) \<and>
        \<not> isspace (hd (version c)) \<and> \<not> isspace (last (version c)))"
proof -
  obtain c where c: "fst (load_conf (host untidy)) = Inr c"
    and v: "version c = str_lit ''v0.3.3''" and r: "release c = str_lit ''v0.3.3''"
    using load_untidy by blast
  then have "version c \<noteq> []" by (simp add: str_lit_def)
  with version_release_stripped_line [OF c]
  have "LF \<notin> set (version c) \<and> CR \<notin> set (version c) \<and>
        \<not> isspace (hd (version c)) \<and> \<not> isspace (last (version c))"
    by blast
  with c v r show ?thesis by simp
qed

text \<open>
  Claim C10. After the load the flag \<open>sphinx_tabs_disable_tab_closing\<close> is \<open>True\<close>,
  whatever the repository and the tool's answers are.
\<close>

theorem tab_closing_disabled:
  assumes "fst (load_conf w) = Inr c"
  shows "sphinx_tabs_disable_tab_closing c"
  using load_conf_InrD [OF assms] by auto

theorem tab_closing_disabled_witness:
  "(case fst (load_conf (host untidy)) of
      Inl e \<Rightarrow> False
    | Inr c \<Rightarrow> sphinx_tabs_disable_tab_closing c) \<and>
   (case fst (load_conf (host no_output)) of
      Inl e \<Rightarrow> False
    | Inr c \<Rightarrow> sphinx_tabs_disable_tab_closing c)"
proof -
  obtain c where c: "fst (load_conf (host untidy)) = Inr c"
    using load_untidy by blast
  obtain d where d: "fst (load_conf (host no_output)) = Inr d"
    using load_no_output by blast
  from tab_closing_disabled [OF c] tab_closing_disabled [OF d] c d show ?thesis by simp
qed

end
